theory Spec2Isabelle
  imports Complex_Main "HOL-Library.AList" "HOL-Library.Sublist" "HOL-Library.Product_Lexorder"
begin

section \<open>Python values and exceptions\<close>

text \<open>
  The module \<^verbatim>\<open>dashboard/app/data_loader.py\<close> reads JSON files, turns each into a
  flat record and keeps the records in a pandas table. Exceptions are values here:
  a computation that can raise has the type \<open>py_error + 'a\<close>, with \<open>Inl\<close> the
  exception that leaves the function.
\<close>

datatype py_error =
    OSError | JSONDecodeError | UnicodeDecodeError | KeyError | TypeError
  | AttributeError | ValueError

text \<open>
  What \<^verbatim>\<open>json.load\<close> returns. A JSON object is the parsed \<^verbatim>\<open>dict\<close>, kept as an
  association list in insertion order (a lookup takes the first binding of a key).
  Python floats are idealised as rationals: the rounding, the overflow and the
  special values of IEEE doubles are not modelled.
\<close>

datatype json =
    JNull | JBool bool | JInt int | JFloat rat | JStr string
  | JArr "json list" | JObj "(string \<times> json) list"

text \<open>Python's truth value of a parsed JSON value (\<^verbatim>\<open>not x\<close> is its negation).\<close>

fun truthy :: "json \<Rightarrow> bool" where
  "truthy JNull = False"
| "truthy (JBool b) = b"
| "truthy (JInt i) = (i \<noteq> 0)"
| "truthy (JFloat r) = (r \<noteq> 0)"
| "truthy (JStr s) = (s \<noteq> [])"
| "truthy (JArr xs) = (xs \<noteq> [])"
| "truthy (JObj kvs) = (kvs \<noteq> [])"

text \<open>\<^verbatim>\<open>data.get(key, default)\<close>: only a dict has the method.\<close>

fun py_get :: "json \<Rightarrow> string \<Rightarrow> json \<Rightarrow> py_error + json" where
  "py_get (JObj kvs) key dflt = (case map_of kvs key of None \<Rightarrow> Inr dflt | Some v \<Rightarrow> Inr v)"
| "py_get _ key dflt = Inl AttributeError"

text \<open>
  \<^verbatim>\<open>key in container\<close> for a string key: key membership in a dict, element
  membership in a list, substring test in a string, and a \<^verbatim>\<open>TypeError\<close> for a
  value that is not iterable.
\<close>

fun py_contains :: "string \<Rightarrow> json \<Rightarrow> py_error + bool" where
  "py_contains key (JObj kvs) = Inr (map_of kvs key \<noteq> None)"
| "py_contains key (JArr xs) = Inr (JStr key \<in> set xs)"
| "py_contains key (JStr s) = Inr (sublist key s)"
| "py_contains key _ = Inl TypeError"

text \<open>\<^verbatim>\<open>container[key]\<close> for a string key.\<close>

fun py_getitem :: "json \<Rightarrow> string \<Rightarrow> py_error + json" where
  "py_getitem (JObj kvs) key = (case map_of kvs key of None \<Rightarrow> Inl KeyError | Some v \<Rightarrow> Inr v)"
| "py_getitem _ key = Inl TypeError"

text \<open>
  \<^verbatim>\<open>x / 1_000_000\<close>: true division of a number (a bool is an int in Python) gives a
  float; any other operand raises \<^verbatim>\<open>TypeError\<close>.
\<close>

fun py_truediv :: "json \<Rightarrow> int \<Rightarrow> py_error + json" where
  "py_truediv (JInt i) d = Inr (JFloat (of_int i / of_int d))"
| "py_truediv (JFloat r) d = Inr (JFloat (r / of_int d))"
| "py_truediv (JBool b) d = Inr (JFloat ((if b then 1 else 0) / of_int d))"
| "py_truediv _ d = Inl TypeError"

section \<open>Metric definitions\<close>

record metric_config =
  metric_name :: string
  unit :: string
  convert :: "json \<Rightarrow> py_error + json"

definition METRICS :: "(string \<times> metric_config) list" where
  "METRICS =
    [(''download'',
        \<lparr>metric_name = ''Download'', unit = ''Mbps'', convert = (\<lambda>x. py_truediv x 1000000)\<rparr>),
     (''upload'',
        \<lparr>metric_name = ''Upload'', unit = ''Mbps'', convert = (\<lambda>x. py_truediv x 1000000)\<rparr>),
     (''latency'',
        \<lparr>metric_name = ''Latency'', unit = ''ms'', convert = (\<lambda>x. Inr x)\<rparr>),
     (''jitter'',
        \<lparr>metric_name = ''Jitter'', unit = ''ms'', convert = (\<lambda>x. Inr x)\<rparr>),
     (''downLoadedLatency'',
        \<lparr>metric_name = ''Loaded Latency (Down)'', unit = ''ms'', convert = (\<lambda>x. Inr x)\<rparr>),
     (''downLoadedJitter'',
        \<lparr>metric_name = ''Loaded Jitter (Down)'', unit = ''ms'', convert = (\<lambda>x. Inr x)\<rparr>),
     (''upLoadedLatency'',
        \<lparr>metric_name = ''Loaded Latency (Up)'', unit = ''ms'', convert = (\<lambda>x. Inr x)\<rparr>),
     (''upLoadedJitter'',
        \<lparr>metric_name = ''Loaded Jitter (Up)'', unit = ''ms'', convert = (\<lambda>x. Inr x)\<rparr>)]"

section \<open>The filename timestamp parser\<close>

text \<open>
  A \<^verbatim>\<open>datetime\<close> in UTC (the parser only ever builds one with the offset
  \<^verbatim>\<open>+00:00\<close>).
\<close>

record datetime =
  year :: nat
  month :: nat
  day :: nat
  hour :: nat
  minute :: nat
  second :: nat
  microsecond :: nat

text \<open>
  The two regular expressions of the parser are sequences of literals and of
  \<^verbatim>\<open>\d{n}\<close>. \<^verbatim>\<open>re.match\<close> anchors such a sequence at the start of the string only;
  what follows the match is returned here as the rest. Characters are bytes and
  \<^verbatim>\<open>\d\<close> is an ASCII digit.
\<close>

datatype piece = Digits nat | Lit string

definition is_digit :: "char \<Rightarrow> bool" where
  "is_digit c = (c \<in> set ''0123456789'')"

fun take_digits :: "nat \<Rightarrow> string \<Rightarrow> (string \<times> string) option" where
  "take_digits 0 s = Some ([], s)"
| "take_digits (Suc n) [] = None"
| "take_digits (Suc n) (c # cs) =
     (if is_digit c
      then (case take_digits n cs of None \<Rightarrow> None | Some (ds, rest) \<Rightarrow> Some (c # ds, rest))
      else None)"

fun take_lit :: "string \<Rightarrow> string \<Rightarrow> string option" where
  "take_lit [] s = Some s"
| "take_lit (l # ls) [] = None"
| "take_lit (l # ls) (c # cs) = (if l = c then take_lit ls cs else None)"

text \<open>
  \<open>re_match ps s\<close>: the digit groups, the text matched and the rest of \<open>s\<close>, or
  \<open>None\<close> when \<open>s\<close> does not start with the pattern.
\<close>

fun re_match :: "piece list \<Rightarrow> string \<Rightarrow> (string list \<times> string \<times> string) option" where
  "re_match [] s = Some ([], [], s)"
| "re_match (Digits n # ps) s =
     (case take_digits n s of
        None \<Rightarrow> None
      | Some (ds, rest) \<Rightarrow>
          (case re_match ps rest of
             None \<Rightarrow> None
           | Some (gs, m, r) \<Rightarrow> Some (ds # gs, ds @ m, r)))"
| "re_match (Lit l # ps) s =
     (case take_lit l s of
        None \<Rightarrow> None
      | Some rest \<Rightarrow>
          (case re_match ps rest of
             None \<Rightarrow> None
           | Some (gs, m, r) \<Rightarrow> Some (gs, l @ m, r)))"

definition stamp_pieces :: "piece list" where
  "stamp_pieces =
     [Digits 4, Lit ''-'', Digits 2, Lit ''-'', Digits 2, Lit ''T'',
      Digits 2, Lit ''-'', Digits 2, Lit ''-'', Digits 2, Lit ''-'', Digits 3, Lit ''Z'']"

definition time_pieces :: "piece list" where
  "time_pieces =
     [Digits 2, Lit ''-'', Digits 2, Lit ''-'', Digits 2, Lit ''-'', Digits 3, Lit ''Z'']"

text \<open>
  \<^verbatim>\<open>re.match(r"speedtest-(\d{4}-\d{2}-\d{2}T\d{2}-\d{2}-\d{2}-\d{3}Z)\.json", filename)\<close>:
  group 1 of the match, if there is one.
\<close>

definition match_filename :: "string \<Rightarrow> string option" where
  "match_filename filename =
     (case take_lit ''speedtest-'' filename of
        None \<Rightarrow> None
      | Some r1 \<Rightarrow>
          (case re_match stamp_pieces r1 of
             None \<Rightarrow> None
           | Some (gs, g1, r2) \<Rightarrow>
               (case take_lit ''.json'' r2 of None \<Rightarrow> None | Some r3 \<Rightarrow> Some g1)))"

text \<open>\<^verbatim>\<open>s.split(sep)\<close> for a one-character separator.\<close>

fun split_on :: "char \<Rightarrow> string \<Rightarrow> string list" where
  "split_on sep [] = [[]]"
| "split_on sep (c # cs) =
     (if c = sep then [] # split_on sep cs
      else (case split_on sep cs of [] \<Rightarrow> [[c]] | p # ps \<Rightarrow> (c # p) # ps))"

text \<open>\<^verbatim>\<open>s.replace("Z", "+00:00")\<close>.\<close>

definition replace_Z :: "string \<Rightarrow> string" where
  "replace_Z s = concat (map (\<lambda>c. if c = CHR ''Z'' then ''+00:00'' else [c]) s)"

definition digit_val :: "char \<Rightarrow> nat" where
  "digit_val c = of_char c - 48"

definition nat_of_digits :: "string \<Rightarrow> nat" where
  "nat_of_digits ds = foldl (\<lambda>a c. 10 * a + digit_val c) 0 ds"

definition is_leap :: "nat \<Rightarrow> bool" where
  "is_leap y = (y mod 4 = 0 \<and> (y mod 100 \<noteq> 0 \<or> y mod 400 = 0))"

definition days_in_month :: "nat \<Rightarrow> nat \<Rightarrow> nat" where
  "days_in_month y m =
     (if m = 2 then (if is_leap y then 29 else 28)
      else if m = 4 \<or> m = 6 \<or> m = 9 \<or> m = 11 then 30 else 31)"

definition iso_pieces :: "piece list" where
  "iso_pieces =
     [Digits 4, Lit ''-'', Digits 2, Lit ''-'', Digits 2, Lit ''T'',
      Digits 2, Lit '':'', Digits 2, Lit '':'', Digits 2, Lit ''.'', Digits 3, Lit ''+00:00'']"

text \<open>
  \<^verbatim>\<open>datetime.fromisoformat\<close> of the standard library, on the one format this module
  passes to it (\<^verbatim>\<open>YYYY-MM-DDTHH:MM:SS.mmm+00:00\<close>): the fields must be in range
  (year 1 to 9999, a day the month has, hour below 24, minute and second below 60),
  otherwise it raises \<^verbatim>\<open>ValueError\<close>.
\<close>

definition fromisoformat :: "string \<Rightarrow> py_error + datetime" where
  "fromisoformat s =
     (case re_match iso_pieces s of
        Some ([y, mo, d, h, mi, se, ms], m, []) \<Rightarrow>
          (let yv = nat_of_digits y; mov = nat_of_digits mo; dv = nat_of_digits d;
               hv = nat_of_digits h; miv = nat_of_digits mi; sev = nat_of_digits se
           in if 1 \<le> yv \<and> 1 \<le> mov \<and> mov \<le> 12 \<and> 1 \<le> dv \<and> dv \<le> days_in_month yv mov
                 \<and> hv < 24 \<and> miv < 60 \<and> sev < 60
              then Inr \<lparr>year = yv, month = mov, day = dv, hour = hv, minute = miv,
                        second = sev, microsecond = 1000 * nat_of_digits ms\<rparr>
              else Inl ValueError)
      | _ \<Rightarrow> Inl ValueError)"

definition parse_timestamp_from_filename :: "string \<Rightarrow> datetime option" where
  "parse_timestamp_from_filename filename =
     (case match_filename filename of
        None \<Rightarrow> None
      | Some timestamp_str \<Rightarrow>
          (case split_on CHR ''T'' timestamp_str of
             [date_part, time_part] \<Rightarrow>
               (case re_match time_pieces time_part of
                  Some ([hour_s, minute_s, second_s, ms], m, r) \<Rightarrow>
                    (let iso_str = date_part @ ''T'' @ hour_s @ '':'' @ minute_s @ '':''
                                   @ second_s @ ''.'' @ ms @ ''Z''
                     in (case fromisoformat (replace_Z iso_str) of
                           Inr dt \<Rightarrow> Some dt
                         | Inl e \<Rightarrow> None))
                | _ \<Rightarrow> None)
           | _ \<Rightarrow> None))"

section \<open>The record extractor\<close>

text \<open>
  A \<^verbatim>\<open>pathlib.Path\<close>: the directory and the final component (\<^verbatim>\<open>filepath.name\<close>).
  A file system gives, for a path, what \<^verbatim>\<open>open\<close> followed by \<^verbatim>\<open>json.load\<close> does:
  it raises (\<^verbatim>\<open>OSError\<close> for a missing or unreadable file, \<^verbatim>\<open>JSONDecodeError\<close>
  for text that is not JSON, \<^verbatim>\<open>UnicodeDecodeError\<close> for bytes that are not text)
  or returns the parsed value.
\<close>

record path =
  parent :: string
  name :: string

type_synonym filesystem = "path \<Rightarrow> py_error + json"

text \<open>The values of a record: the timestamp, and values taken from the payload.\<close>

datatype pyobj = PyDatetime datetime | PyJson json

type_synonym pyrecord = "(string \<times> pyobj) list"

text \<open>
  The loop \<^verbatim>\<open>for key, config in METRICS.items()\<close>; \<^verbatim>\<open>record[key] = ...\<close> replaces the
  value of a key the dict has and appends a new key otherwise.
\<close>

fun add_metrics :: "(string \<times> metric_config) list \<Rightarrow> json \<Rightarrow> pyrecord \<Rightarrow> py_error + pyrecord" where
  "add_metrics [] data recd = Inr recd"
| "add_metrics ((key, config) # rest) data recd =
     (case py_getitem data ''result'' of
        Inl e \<Rightarrow> Inl e
      | Inr res \<Rightarrow>
          (case py_contains key res of
             Inl e \<Rightarrow> Inl e
           | Inr present \<Rightarrow>
               if \<not> present then add_metrics rest data recd
               else (case py_getitem res key of
                       Inl e \<Rightarrow> Inl e
                     | Inr x \<Rightarrow>
                         (case convert config x of
                            Inl e \<Rightarrow> Inl e
                          | Inr y \<Rightarrow> add_metrics rest data (AList.update key (PyJson y) recd)))))"

text \<open>The body of the \<^verbatim>\<open>try\<close> block of \<^verbatim>\<open>load_single_file\<close>.\<close>

definition load_single_file_body :: "filesystem \<Rightarrow> path \<Rightarrow> py_error + pyrecord option" where
  "load_single_file_body fs filepath =
     (case fs filepath of
        Inl e \<Rightarrow> Inl e
      | Inr data \<Rightarrow>
          (case py_get data ''success'' (JBool False) of
             Inl e \<Rightarrow> Inl e
           | Inr success \<Rightarrow>
               if \<not> truthy success then Inr None
               else (case py_contains ''result'' data of
                       Inl e \<Rightarrow> Inl e
                     | Inr has_result \<Rightarrow>
                         if \<not> has_result then Inr None
                         else (case parse_timestamp_from_filename (name filepath) of
                                 None \<Rightarrow> Inr None
                               | Some timestamp \<Rightarrow>
                                   (case py_get data ''sessionID'' JNull of
                                      Inl e \<Rightarrow> Inl e
                                    | Inr session \<Rightarrow>
                                        (case py_get data ''endpoint'' JNull of
                                           Inl e \<Rightarrow> Inl e
                                         | Inr endpoint \<Rightarrow>
                                             (case add_metrics METRICS data
                                                     [(''timestamp'', PyDatetime timestamp),
                                                      (''source_file'', PyJson (JStr (name filepath))),
                                                      (''sessionID'', PyJson session),
                                                      (''endpoint'', PyJson endpoint)] of
                                                Inl e \<Rightarrow> Inl e
                                              | Inr recd \<Rightarrow> Inr (Some recd))))))))"

text \<open>\<^verbatim>\<open>except (json.JSONDecodeError, KeyError, TypeError, OSError)\<close>.\<close>

definition caught :: "py_error \<Rightarrow> bool" where
  "caught e = (e = JSONDecodeError \<or> e = KeyError \<or> e = TypeError \<or> e = OSError)"

definition load_single_file :: "filesystem \<Rightarrow> path \<Rightarrow> py_error + pyrecord option" where
  "load_single_file fs filepath =
     (case load_single_file_body fs filepath of
        Inl e \<Rightarrow> if caught e then Inr None else Inl e
      | Inr r \<Rightarrow> Inr r)"

section \<open>The parallel file loader\<close>

text \<open>
  The loop over \<^verbatim>\<open>as_completed\<close>: \<^verbatim>\<open>future.result()\<close> re-raises what the worker
  raised, \<^verbatim>\<open>None\<close> and an empty dict are skipped.
\<close>

fun collect_records :: "(py_error + pyrecord option) list \<Rightarrow> py_error + pyrecord list" where
  "collect_records [] = Inr []"
| "collect_records (Inl e # rs) = Inl e"
| "collect_records (Inr None # rs) = collect_records rs"
| "collect_records (Inr (Some r) # rs) =
     (case collect_records rs of
        Inl e \<Rightarrow> Inl e
      | Inr recs \<Rightarrow> Inr (if r = [] then recs else r # recs))"

text \<open>
  Every submitted path is parsed by one worker. The futures complete in an order the
  program does not control: \<open>finish\<close> ranks the paths by completion time.
\<close>

definition load_json_files_parallel ::
    "filesystem \<Rightarrow> (path \<Rightarrow> nat) \<Rightarrow> path list \<Rightarrow> py_error + pyrecord list" where
  "load_json_files_parallel fs finish filepaths =
     (if filepaths = [] then Inr []
      else collect_records (map (load_single_file fs) (sort_key finish filepaths)))"

section \<open>Tables\<close>

text \<open>
  A pandas \<^verbatim>\<open>DataFrame\<close>: the column labels in order, and the rows in order, each row
  an association list from column label to cell; a label without a binding is a
  missing value (\<^verbatim>\<open>NaN\<close>, \<^verbatim>\<open>NaT\<close>). A timestamp cell is the instant in microseconds
  since 1970-01-01T00:00:00Z. The row index labels of pandas are not modelled.
\<close>

datatype cell = Timestamp int | Obj json

type_synonym row = "(string \<times> cell) list"

record frame =
  columns :: "string list"
  rows :: "row list"

text \<open>\<^verbatim>\<open>pd.DataFrame()\<close> and \<^verbatim>\<open>df.empty\<close>.\<close>

definition empty_frame :: frame where
  "empty_frame = \<lparr>columns = [], rows = []\<rparr>"

definition is_empty :: "frame \<Rightarrow> bool" where
  "is_empty df = (columns df = [] \<or> rows df = [])"

text \<open>Days from 1970-01-01 to a date of the proleptic Gregorian calendar.\<close>

definition days_from_civil :: "nat \<Rightarrow> nat \<Rightarrow> nat \<Rightarrow> int" where
  "days_from_civil y m d =
     (let y' = (if m \<le> 2 then int y - 1 else int y);
          era = y' div 400;
          yoe = y' - era * 400;
          mp = (if m > 2 then int m - 3 else int m + 9);
          doy = (153 * mp + 2) div 5 + int d - 1;
          doe = yoe * 365 + yoe div 4 - yoe div 100 + doy
      in era * 146097 + doe - 719468)"

definition to_epoch :: "datetime \<Rightarrow> int" where
  "to_epoch dt =
     (((days_from_civil (year dt) (month dt) (day dt) * 24 + int (hour dt)) * 60
        + int (minute dt)) * 60 + int (second dt)) * 1000000 + int (microsecond dt)"

definition to_cell :: "pyobj \<Rightarrow> cell" where
  "to_cell v = (case v of PyDatetime dt \<Rightarrow> Timestamp (to_epoch dt) | PyJson j \<Rightarrow> Obj j)"

text \<open>Labels in order of first appearance.\<close>

definition ordered_union :: "string list \<Rightarrow> string list \<Rightarrow> string list" where
  "ordered_union cols ks = fold (\<lambda>k cs. if k \<in> set cs then cs else cs @ [k]) ks cols"

text \<open>\<^verbatim>\<open>pd.DataFrame(records)\<close> for a list of dicts.\<close>

definition DataFrame :: "pyrecord list \<Rightarrow> frame" where
  "DataFrame records =
     \<lparr>columns = fold (\<lambda>r cols. ordered_union cols (map fst r)) records [],
      rows = map (map (\<lambda>(k, v). (k, to_cell v))) records\<rparr>"

text \<open>\<^verbatim>\<open>pd.concat([a, b], ignore_index=True)\<close>.\<close>

definition concat_frames :: "frame \<Rightarrow> frame \<Rightarrow> frame" where
  "concat_frames a b =
     \<lparr>columns = ordered_union (columns a) (columns b), rows = rows a @ rows b\<rparr>"

text \<open>\<^verbatim>\<open>df.drop(columns=[c])\<close>: a label the frame does not have is a \<^verbatim>\<open>KeyError\<close>.\<close>

definition drop_column :: "frame \<Rightarrow> string \<Rightarrow> py_error + frame" where
  "drop_column df c =
     (if c \<notin> set (columns df) then Inl KeyError
      else Inr \<lparr>columns = removeAll c (columns df), rows = map (AList.delete c) (rows df)\<rparr>)"

text \<open>
  \<^verbatim>\<open>df.sort_values(c, ascending=True)\<close> on a column of timestamps: ascending, rows
  without a timestamp last. The sort of the model is stable; pandas promises the order
  of the keys only.
\<close>

definition sort_rank :: "string \<Rightarrow> row \<Rightarrow> nat \<times> int" where
  "sort_rank c r = (case map_of r c of Some (Timestamp t) \<Rightarrow> (0, t) | _ \<Rightarrow> (1, 0))"

definition sort_values :: "frame \<Rightarrow> string \<Rightarrow> py_error + frame" where
  "sort_values df c =
     (if c \<notin> set (columns df) then Inl KeyError
      else Inr \<lparr>columns = columns df, rows = sort_key (sort_rank c) (rows df)\<rparr>)"

text \<open>\<^verbatim>\<open>df[c]\<close>: the cells of a column, row by row.\<close>

definition column_values :: "frame \<Rightarrow> string \<Rightarrow> py_error + cell option list" where
  "column_values df c =
     (if c \<notin> set (columns df) then Inl KeyError
      else Inr (map (\<lambda>r. map_of r c) (rows df)))"

section \<open>The cache store\<close>


text \<open>
  The state of the cache file: absent, present but unreadable, or a snapshot that
  \<^verbatim>\<open>pd.read_parquet\<close> reads back as the frame that was written.
\<close>

datatype cache_file = NoFile | Corrupt | Snapshot frame

definition load_cache :: "cache_file \<Rightarrow> frame option" where
  "load_cache c = (case c of NoFile \<Rightarrow> None | Corrupt \<Rightarrow> None | Snapshot df \<Rightarrow> Some df)"

text \<open>
  \<^verbatim>\<open>_save_cache\<close>: the write replaces the snapshot, or fails (the exception is
  swallowed) and leaves the cache file as it was.
\<close>

definition save_cache :: "bool \<Rightarrow> frame \<Rightarrow> cache_file \<Rightarrow> cache_file" where
  "save_cache write_succeeds df c = (if write_succeeds then Snapshot df else c)"

section \<open>The dataset loader\<close>

text \<open>
  What \<^verbatim>\<open>load_all_data\<close> reads from its surroundings: the configured directory, whether
  it exists, the names of its entries (in the order \<^verbatim>\<open>glob\<close> yields them), what
  reading each file gives, the completion ranks of the worker tasks, and whether a
  write of the cache file succeeds.
\<close>

record world =
  DATA_DIR :: string
  dir_exists :: bool
  entries :: "string list"
  read_file :: filesystem
  finish :: "path \<Rightarrow> nat"
  write_succeeds :: bool

text \<open>The pattern \<^verbatim>\<open>speedtest-*.json\<close> of \<^verbatim>\<open>glob\<close>.\<close>

definition glob_match :: "string \<Rightarrow> bool" where
  "glob_match n = (prefix ''speedtest-'' n \<and> suffix ''.json'' n \<and> 15 \<le> length n)"

text \<open>
  What a run of \<^verbatim>\<open>load_all_data\<close> leaves: the returned frame or the exception that
  left it, the cache file afterwards, and the paths that were handed to
  \<^verbatim>\<open>load_single_file\<close>.
\<close>

record outcome =
  result :: "py_error + frame"
  cache_after :: cache_file
  parsed :: "path list"

text \<open>The tail of \<^verbatim>\<open>load_all_data\<close>: sort, save the cache, drop the source column.\<close>

definition sort_and_save :: "world \<Rightarrow> cache_file \<Rightarrow> path list \<Rightarrow> frame \<Rightarrow> outcome" where
  "sort_and_save w cache submitted df =
     (case sort_values df ''timestamp'' of
        Inl e \<Rightarrow> \<lparr>result = Inl e, cache_after = cache, parsed = submitted\<rparr>
      | Inr sorted_df \<Rightarrow>
          \<lparr>result = drop_column sorted_df ''source_file'',
           cache_after = save_cache (write_succeeds w) sorted_df cache,
           parsed = submitted\<rparr>)"

text \<open>
  \<^verbatim>\<open>cached_df is not None and not cached_df.empty\<close>: the snapshot the loader
  builds on, if there is one.
\<close>

definition usable_cache :: "cache_file \<Rightarrow> frame option" where
  "usable_cache cache =
     (case load_cache cache of
        None \<Rightarrow> None
      | Some cached_df \<Rightarrow> if is_empty cached_df then None else Some cached_df)"

text \<open>
  \<^verbatim>\<open>{fp.name: fp for fp in data_path.glob("speedtest-*.json")}\<close>: the matching
  entries by name, each name once.
\<close>

definition glob_json_files :: "world \<Rightarrow> (string \<times> path) list" where
  "glob_json_files w =
     map (\<lambda>n. (n, \<lparr>parent = DATA_DIR w, name = n\<rparr>))
       (ordered_union [] (filter glob_match (entries w)))"

definition load_all_data :: "world \<Rightarrow> cache_file \<Rightarrow> outcome" where
  "load_all_data w cache =
     (if \<not> dir_exists w then \<lparr>result = Inr empty_frame, cache_after = cache, parsed = []\<rparr>
      else
        let all_json_files = glob_json_files w
        in if all_json_files = []
           then \<lparr>result = Inr empty_frame, cache_after = cache, parsed = []\<rparr>
           else
             (case usable_cache cache of
                Some cached_df \<Rightarrow>
                  (case column_values cached_df ''source_file'' of
                     Inl e \<Rightarrow> \<lparr>result = Inl e, cache_after = cache, parsed = []\<rparr>
                   | Inr cached_files \<Rightarrow>
                       let new_files =
                             map snd (filter (\<lambda>(n, fp). Some (Obj (JStr n)) \<notin> set cached_files)
                                        all_json_files)
                       in if new_files = []
                          then \<lparr>result =
                                  (case drop_column cached_df ''source_file'' of
                                     Inl e \<Rightarrow> Inl e
                                   | Inr d \<Rightarrow> sort_values d ''timestamp''),
                                cache_after = cache, parsed = []\<rparr>
                          else
                            (case load_json_files_parallel (read_file w) (finish w) new_files of
                               Inl e \<Rightarrow> \<lparr>result = Inl e, cache_after = cache, parsed = new_files\<rparr>
                             | Inr new_records \<Rightarrow>
                                 sort_and_save w cache new_files
                                   (if new_records \<noteq> []
                                    then concat_frames cached_df (DataFrame new_records)
                                    else cached_df)))
              | None \<Rightarrow>
                  (let all_filepaths = map snd all_json_files
                   in case load_json_files_parallel (read_file w) (finish w) all_filepaths of
                        Inl e \<Rightarrow> \<lparr>result = Inl e, cache_after = cache, parsed = all_filepaths\<rparr>
                      | Inr records \<Rightarrow>
                          if records = []
                          then \<lparr>result = Inr empty_frame, cache_after = cache,
                                parsed = all_filepaths\<rparr>
                          else sort_and_save w cache all_filepaths (DataFrame records))))"

section \<open>The latest measurements\<close>

text \<open>
  \<^verbatim>\<open>df.tail(n)\<close>: the last \<open>n\<close> rows; no row for \<open>n = 0\<close>; for a negative \<open>n\<close>
  all rows but the first \<open>|n|\<close>. \<^verbatim>\<open>.iloc[::-1]\<close> reverses the rows.
\<close>

definition tail :: "frame \<Rightarrow> int \<Rightarrow> frame" where
  "tail df n =
     \<lparr>columns = columns df,
      rows = (if n = 0 then []
              else if 0 < n then drop (length (rows df) - nat n) (rows df)
              else drop (nat (- n)) (rows df))\<rparr>"

definition reversed :: "frame \<Rightarrow> frame" where
  "reversed df = \<lparr>columns = columns df, rows = rev (rows df)\<rparr>"

definition get_latest_measurements :: "frame \<Rightarrow> int \<Rightarrow> frame" where
  "get_latest_measurements df count = (if is_empty df then df else reversed (tail df count))"

section \<open>The aggregator\<close>













section \<open>The aggregation as the specification words it\<close>







section \<open>Files that give a record\<close>


section \<open>Example inputs\<close>

text \<open>A data directory whose only file holds the JSON array \<^verbatim>\<open>[]\<close>.\<close>

definition array_world :: world where
  "array_world =
     \<lparr>DATA_DIR = ''/data'', dir_exists = True,
      entries = [''speedtest-2024-01-15T10-30-00-000Z.json''],
      read_file = (\<lambda>p. Inr (JArr [])), finish = (\<lambda>p. 0), write_succeeds = True\<rparr>"

text \<open>A table of three rows.\<close>

definition three_rows :: frame where
  "three_rows =
     \<lparr>columns = [''timestamp''],
      rows = [[(''timestamp'', Timestamp 1)], [(''timestamp'', Timestamp 2)],
              [(''timestamp'', Timestamp 3)]]\<rparr>"

text \<open>
  A data directory with two measurements, a file that is not JSON and an entry the
  pattern does not match; the later measurement is listed and completes first.
\<close>

definition good_payload :: "int \<Rightarrow> json" where
  "good_payload bytes_per_second =
     JObj [(''success'', JBool True), (''sessionID'', JStr ''s1''),
           (''result'', JObj [(''download'', JInt bytes_per_second), (''latency'', JInt 12)])]"

definition mixed_files :: filesystem where
  "mixed_files =
     (\<lambda>p. if name p = ''speedtest-2024-01-15T10-30-00-000Z.json''
          then Inr (good_payload 50000000)
          else if name p = ''speedtest-2024-01-15T10-00-00-000Z.json''
          then Inr (good_payload 30000000)
          else if name p = ''speedtest-2024-01-15T10-45-00-000Z.json''
          then Inl JSONDecodeError
          else Inl OSError)"

definition mixed_world :: world where
  "mixed_world =
     \<lparr>DATA_DIR = ''/data'', dir_exists = True,
      entries = [''speedtest-2024-01-15T10-30-00-000Z.json'', ''notes.txt'',
                 ''speedtest-2024-01-15T10-00-00-000Z.json'',
                 ''speedtest-2024-01-15T10-45-00-000Z.json''],
      read_file = mixed_files, finish = (\<lambda>p. 0), write_succeeds = True\<rparr>"


definition mixed_dataset :: frame where
  "mixed_dataset =
     \<lparr>columns = [''timestamp'', ''sessionID'', ''endpoint'', ''download'', ''latency''],
      rows = [[(''timestamp'', Timestamp 1705312800000000), (''sessionID'', Obj (JStr ''s1'')),
               (''endpoint'', Obj JNull), (''download'', Obj (JFloat 30)),
               (''latency'', Obj (JInt 12))],
              [(''timestamp'', Timestamp 1705314600000000), (''sessionID'', Obj (JStr ''s1'')),
               (''endpoint'', Obj JNull), (''download'', Obj (JFloat 50)),
               (''latency'', Obj (JInt 12))]]\<rparr>"

text \<open>The measurement of 10:30 in that directory, and the record it gives.\<close>

definition half_past :: path where
  "half_past = \<lparr>parent = ''/data'', name = ''speedtest-2024-01-15T10-30-00-000Z.json''\<rparr>"

definition half_past_record :: pyrecord where
  "half_past_record =
     [(''timestamp'',
       PyDatetime \<lparr>year = 2024, month = 1, day = 15, hour = 10, minute = 30, second = 0,
                   microsecond = 0\<rparr>),
      (''source_file'', PyJson (JStr ''speedtest-2024-01-15T10-30-00-000Z.json'')),
      (''sessionID'', PyJson (JStr ''s1'')), (''endpoint'', PyJson JNull),
      (''download'', PyJson (JFloat 50)), (''latency'', PyJson (JInt 12))]"

text \<open>A payload whose success field is the number zero.\<close>

definition zero_success :: filesystem where
  "zero_success = (\<lambda>p. Inr (JObj [(''success'', JInt 0), (''result'', JObj [])]))"






section \<open>Properties of the table operations\<close>

lemma sort_values_sorted:
  "sort_values df c = Inr d \<Longrightarrow> sorted (map (sort_rank c) (rows d)) \<and> columns d = columns df"
  by (auto simp: sort_values_def split: if_splits)

lemma sort_rank_delete: "c' \<noteq> c \<Longrightarrow> sort_rank c' (AList.delete c r) = sort_rank c' r"
  by (simp add: sort_rank_def)

lemma drop_column_props:
  assumes "drop_column df c = Inr d"
  shows "c \<notin> set (columns d)"
    and "\<And>r. r \<in> set (rows d) \<Longrightarrow> map_of r c = None"
    and "c' \<noteq> c \<Longrightarrow> map (sort_rank c') (rows d) = map (sort_rank c') (rows df)"
    and "c' \<noteq> c \<Longrightarrow> c' \<in> set (columns d) \<longleftrightarrow> c' \<in> set (columns df)"
  using assms
  by (auto simp: drop_column_def sort_rank_delete AList.delete_conv' split: if_splits)

lemma sort_and_save_result:
  assumes "result (sort_and_save w cache sub df) = Inr d"
  shows "sorted (map (sort_rank ''timestamp'') (rows d)) \<and> ''source_file'' \<notin> set (columns d)
     \<and> (\<forall>r\<in>set (rows d). map_of r ''source_file'' = None)"
proof -
  from assms obtain s where s: "sort_values df ''timestamp'' = Inr s"
    and d: "drop_column s ''source_file'' = Inr d"
    by (auto simp: sort_and_save_def split: sum.splits)
  have "map (sort_rank ''timestamp'') (rows d) = map (sort_rank ''timestamp'') (rows s)"
    using drop_column_props(3)[OF d, of "''timestamp''"] by simp
  then show ?thesis
    using sort_values_sorted[OF s] drop_column_props(1,2)[OF d] by simp
qed

lemma drop_then_sort_result:
  assumes x: "drop_column c ''source_file'' = Inr x"
    and d: "sort_values x ''timestamp'' = Inr d"
  shows "sorted (map (sort_rank ''timestamp'') (rows d)) \<and> ''source_file'' \<notin> set (columns d)
     \<and> (\<forall>r\<in>set (rows d). map_of r ''source_file'' = None)"
proof -
  have "set (rows d) = set (rows x)" "columns d = columns x"
    using d by (auto simp: sort_values_def split: if_splits)
  then show ?thesis
    using sort_values_sorted[OF d] drop_column_props(1,2)[OF x] by auto
qed



section \<open>Properties of the record extractor\<close>

lemma load_single_file_Some:
  "load_single_file fs p = Inr (Some recd) \<Longrightarrow> load_single_file_body fs p = Inr (Some recd)"
  by (auto simp: load_single_file_def split: sum.splits if_splits)

text \<open>A record comes from a dict payload only, and is what the metric loop returns.\<close>

lemma load_single_file_body_Some:
  assumes "load_single_file_body fs p = Inr (Some recd)"
  shows "\<exists>kvs v ts. fs p = Inr (JObj kvs) \<and> map_of kvs ''success'' = Some v \<and> truthy v
      \<and> map_of kvs ''result'' \<noteq> None
      \<and> parse_timestamp_from_filename (name p) = Some ts
      \<and> add_metrics METRICS (JObj kvs)
           [(''timestamp'', PyDatetime ts), (''source_file'', PyJson (JStr (name p))),
            (''sessionID'',
               PyJson (case map_of kvs ''sessionID'' of None \<Rightarrow> JNull | Some s \<Rightarrow> s)),
            (''endpoint'',
               PyJson (case map_of kvs ''endpoint'' of None \<Rightarrow> JNull | Some s \<Rightarrow> s))]
          = Inr recd"
proof -
  from assms obtain data where d: "fs p = Inr data"
    by (auto simp: load_single_file_body_def split: sum.splits)
  from assms d obtain kvs where k: "data = JObj kvs"
    by (cases data) (auto simp: load_single_file_body_def)
  show ?thesis
    using assms d k
    by (auto simp: load_single_file_body_def split: sum.splits if_splits option.splits)
qed



lemma half_past_run:
  "load_single_file (read_file mixed_world) half_past = Inr (Some half_past_record)"
  by code_simp


section \<open>Properties of the dataset loader\<close>

















section \<open>Properties of the aggregator\<close>













lemma ordered_union_set: "set (ordered_union cols ks) = set cols \<union> set ks"
  unfolding ordered_union_def by (induction ks arbitrary: cols) auto











section \<open>The claims\<close>

text \<open>
  C1. The claim: \<^verbatim>\<open>load_single_file\<close> returns \<^verbatim>\<open>None\<close> and never raises for a file
  that lacks the required top-level fields, so that no exception leaves the loading
  pipeline. The code does not do this: for a file that holds a JSON array,
  \<^verbatim>\<open>data.get\<close> raises \<^verbatim>\<open>AttributeError\<close>, which the \<^verbatim>\<open>except\<close> clause does not
  list, and the exception leaves \<^verbatim>\<open>load_all_data\<close> as well.
\<close>

theorem load_single_file_raises_on_json_array:
  "load_single_file (read_file array_world)
       \<lparr>parent = ''/data'', name = ''speedtest-2024-01-15T10-30-00-000Z.json''\<rparr>
     = Inl AttributeError
   \<and> result (load_all_data array_world NoFile) = Inl AttributeError"
  by code_simp

text \<open>
  C2. The claim: a filename that is not exactly of the shape
  \<^verbatim>\<open>speedtest-YYYY-MM-DDTHH-MM-SS-mmmZ.json\<close>, a wrong suffix included, gives no
  timestamp. The code does not do this: \<^verbatim>\<open>re.match\<close> anchors the pattern at the start
  only, so a name that goes on after \<^verbatim>\<open>.json\<close> is decoded.
\<close>

theorem parse_timestamp_accepts_trailing_text:
  "parse_timestamp_from_filename ''speedtest-2024-01-15T10-30-00-000Z.json.bak'' =
     Some \<lparr>year = 2024, month = 1, day = 15, hour = 10, minute = 30, second = 0,
           microsecond = 0\<rparr>"
  by code_simp







text \<open>
  C5. Every dataset \<^verbatim>\<open>load_all_data\<close> returns, on each of its paths, is sorted
  ascending by timestamp (rows without a timestamp last) and has no
  \<^verbatim>\<open>source_file\<close> column, nor a cell of that column in any row.
\<close>

theorem load_all_data_sorted_without_source:
  assumes "result (load_all_data w cache) = Inr d"
  shows "sorted (map (sort_rank ''timestamp'') (rows d))
     \<and> ''source_file'' \<notin> set (columns d)
     \<and> (\<forall>r\<in>set (rows d). map_of r ''source_file'' = None)"
  using assms unfolding load_all_data_def Let_def
  by (auto split: if_splits option.splits sum.splits
        simp: empty_frame_def sort_and_save_result drop_then_sort_result)

theorem load_all_data_sorted_without_source_witness:
  "result (load_all_data mixed_world NoFile) = Inr mixed_dataset
   \<and> sorted (map (sort_rank ''timestamp'') (rows mixed_dataset))
   \<and> ''source_file'' \<notin> set (columns mixed_dataset)
   \<and> list_all (\<lambda>r. map_of r ''source_file'' = None) (rows mixed_dataset)"
proof -
  have run: "result (load_all_data mixed_world NoFile) = Inr mixed_dataset"
    by code_simp
  show ?thesis
    using run load_all_data_sorted_without_source [OF run] by (simp add: list_all_iff)
qed






text \<open>
  C8. \<^verbatim>\<open>load_single_file\<close> returns a record only for a dict payload whose
  \<^verbatim>\<open>success\<close> field is present and truthy; a dict payload whose \<^verbatim>\<open>success\<close> field
  is absent or falsy gives \<^verbatim>\<open>None\<close>.
\<close>

theorem load_single_file_needs_truthy_success:
  "(load_single_file fs p = Inr (Some recd)
      \<longrightarrow> (\<exists>kvs v. fs p = Inr (JObj kvs) \<and> map_of kvs ''success'' = Some v \<and> truthy v))
   \<and> (fs p = Inr (JObj kvs) \<and> (\<forall>v. map_of kvs ''success'' = Some v \<longrightarrow> \<not> truthy v)
      \<longrightarrow> load_single_file fs p = Inr None)"
proof (intro conjI impI)
  assume "load_single_file fs p = Inr (Some recd)"
  from load_single_file_body_Some[OF load_single_file_Some[OF this]]
  show "\<exists>kvs v. fs p = Inr (JObj kvs) \<and> map_of kvs ''success'' = Some v \<and> truthy v"
    by blast
next
  assume "fs p = Inr (JObj kvs) \<and> (\<forall>v. map_of kvs ''success'' = Some v \<longrightarrow> \<not> truthy v)"
  then show "load_single_file fs p = Inr None"
    by (auto simp: load_single_file_def load_single_file_body_def split: option.splits)
qed

theorem load_single_file_needs_truthy_success_witness:
  "load_single_file (read_file mixed_world) half_past = Inr (Some half_past_record)
   \<and> (\<exists>kvs v. read_file mixed_world half_past = Inr (JObj kvs)
         \<and> map_of kvs ''success'' = Some v \<and> truthy v)
   \<and> zero_success half_past = Inr (JObj [(''success'', JInt 0), (''result'', JObj [])])
   \<and> load_single_file zero_success half_past = Inr None"
proof -
  have z: "zero_success half_past = Inr (JObj [(''success'', JInt 0), (''result'', JObj [])])"
    by (simp add: zero_success_def)
  show ?thesis
    using half_past_run z
      load_single_file_needs_truthy_success
        [of "read_file mixed_world" half_past half_past_record]
      load_single_file_needs_truthy_success
        [of zero_success half_past _ "[(''success'', JInt 0), (''result'', JObj [])]"]
    by simp
qed

text \<open>
  C9, as stated: for every count \<open>N\<close> the result is the last \<open>min(N, number of rows)\<close>
  rows in reverse order. This fails for a negative count: \<^verbatim>\<open>tail(-1)\<close> keeps all rows
  but the first.
\<close>

theorem get_latest_measurements_negative_count:
  "rows (get_latest_measurements three_rows (- 1)) =
     [[(''timestamp'', Timestamp 3)], [(''timestamp'', Timestamp 2)]]
   \<and> take (nat (min (- 1) (int (length (rows three_rows))))) (rev (rows three_rows)) = []
   \<and> rows (get_latest_measurements three_rows (- 1)) \<noteq>
       take (nat (min (- 1) (int (length (rows three_rows))))) (rev (rows three_rows))"
  by code_simp

text \<open>
  C9, amended: for every count \<open>N \<ge> 0\<close>, \<^verbatim>\<open>get_latest_measurements\<close> returns an empty
  dataset as it is, and otherwise the last \<open>min(N, number of rows)\<close> rows in reverse
  order under the same columns.
\<close>

theorem get_latest_measurements_last_rows:
  "0 \<le> count \<Longrightarrow>
   get_latest_measurements df count =
     (if is_empty df then df
      else \<lparr>columns = columns df,
            rows = take (nat (min count (int (length (rows df))))) (rev (rows df))\<rparr>)"
  by (auto simp: get_latest_measurements_def tail_def reversed_def rev_drop min_def nat_le_iff)

theorem get_latest_measurements_last_rows_witness:
  "0 \<le> (2::int)
   \<and> get_latest_measurements three_rows 2 =
       \<lparr>columns = [''timestamp''],
        rows = [[(''timestamp'', Timestamp 3)], [(''timestamp'', Timestamp 2)]]\<rparr>"
  using get_latest_measurements_last_rows [of 2 three_rows]
  by (simp add: three_rows_def is_empty_def)



end
